theory Spec2Isabelle
  imports Main "HOL-Library.Sublist"
begin

section \<open>Flag value adapters of pkg/cmdutil/flags.go\<close>

text \<open>
  Go strings are byte sequences, and so is \<^typ>\<open>string\<close> (a list of 8-bit characters).
  An adapter holds a pointer to the caller's variable; the model keeps the content of that
  variable in the adapter's record and every \<open>Set\<close> returns the error (if any) together
  with the updated record. The pointer itself is taken to be non-nil: the adapter is bound
  to a storage location.
\<close>

subsection \<open>Errors\<close>

text \<open>
  \<open>ParseError\<close> is the \<open>*strconv.NumError\<close> of \<open>strconv.ParseBool\<close> and carries the
  rejected input (its field \<open>Num\<close>); the other two are the errors built by \<open>fmt.Errorf\<close>
  in \<open>enumValue.Set\<close>/\<open>enumMultiValue.Set\<close> and in \<open>regexpValue.Set\<close>, and carry
  the formatted message.
\<close>

datatype error =
    ParseError string
  | InvalidEnumValue string
  | PatternMismatch string

subsection \<open>Functions of the Go standard library used by the adapters\<close>

text \<open>
  \<open>strconv.ParseBool\<close>: a switch over twelve literals.
  \<^verbatim>\<open>
  switch str {
  case "1", "t", "T", "TRUE", "true", "True":  return true, nil
  case "0", "f", "F", "FALSE", "false", "False": return false, nil
  }
  return false, syntaxError("ParseBool", str)
  \<close>
\<close>

definition ParseBool :: "string \<Rightarrow> bool \<times> error option" where
  "ParseBool str =
     (if str \<in> set [''1'', ''t'', ''T'', ''TRUE'', ''true'', ''True''] then (True, None)
      else if str \<in> set [''0'', ''f'', ''F'', ''FALSE'', ''false'', ''False''] then (False, None)
      else (False, Some (ParseError str)))"

text \<open>
  \<open>strings.EqualFold s t\<close>. Its first loop compares the two strings byte by byte as long
  as both bytes are ASCII: equal bytes pass, and so do an upper-case letter and its
  lower-case form. When the shorter string is exhausted the result is
  \<open>len(s) == len(t)\<close>. At the first byte \<open>\<ge> 0x80\<close> in either string the function goes
  on with the rest of both strings, rune by rune, under Unicode simple case folding; that
  part depends on the tables of package \<open>unicode\<close> and is the parameter \<open>hasUnicode\<close>.
\<close>

fun EqualFold :: "(string \<Rightarrow> string \<Rightarrow> bool) \<Rightarrow> string \<Rightarrow> string \<Rightarrow> bool" where
  "EqualFold hasUnicode (sr # s) (tr # t) =
     (if (128::nat) \<le> of_char sr \<or> (128::nat) \<le> of_char tr then hasUnicode (sr # s) (tr # t)
      else if tr = sr then EqualFold hasUnicode s t
      else
        let lo = (if (of_char tr :: nat) < of_char sr then tr else sr);
            hi = (if (of_char tr :: nat) < of_char sr then sr else tr)
        in if (of_char CHR ''A'' :: nat) \<le> of_char lo \<and> (of_char lo :: nat) \<le> of_char CHR ''Z''
              \<and> (of_char hi :: nat) = of_char lo + of_char CHR ''a'' - of_char CHR ''A''
           then EqualFold hasUnicode s t
           else False)"
| "EqualFold hasUnicode s t = (length s = length t)"

text \<open>
  \<open>strings.Split s sep\<close> for a separator of one byte: the loop of \<open>genSplit\<close> cuts at
  every occurrence of the separator and the rest of the string is the last item.
  \<open>IndexByte\<close> is the position of the first occurrence.
\<close>

fun IndexByte :: "string \<Rightarrow> char \<Rightarrow> nat option" where
  "IndexByte [] c = None"
| "IndexByte (x # s) c =
     (if x = c then Some 0 else (case IndexByte s c of None \<Rightarrow> None | Some m \<Rightarrow> Some (Suc m)))"

function Split :: "string \<Rightarrow> char \<Rightarrow> string list" where
  "Split s sep =
     (case IndexByte s sep of
        None \<Rightarrow> [s]
      | Some m \<Rightarrow> take m s # Split (drop (m + 1) s) sep)"
  by pat_completeness auto
termination
proof (relation "measure (\<lambda>(s, sep). length s)")
  show "wf (measure (\<lambda>(s, sep). length s))" by simp
next
  fix s :: string and sep :: char and m :: nat
  assume "IndexByte s sep = Some m"
  then show "((drop (m + 1) s, sep), (s, sep)) \<in> measure (\<lambda>(s, sep). length s)"
    by (cases s) auto
qed

declare Split.simps [simp del]

text \<open>
  \<open>strings.Join elems sep\<close>: nothing for no element, the element itself for one, and
  otherwise the first element followed by \<open>sep\<close> and the next element, for each of the
  others.
\<close>

fun Join :: "string list \<Rightarrow> string \<Rightarrow> string" where
  "Join [] sep = []"
| "Join [x] sep = x"
| "Join (x # xs) sep = x @ concat (map (\<lambda>s. sep @ s) xs)"

text \<open>
  \<open>strconv.Quote\<close>, which is what the verb \<open>%q\<close> of package \<open>fmt\<close> prints for a string:
  the string between double quotes, with the double quote and the backslash
  backslashed, the printable ASCII
  bytes \<open>0x20..0x7e\<close> as they are, the usual escapes for the control characters that have
  one and \<open>\xhh\<close> for the others. What is printed for a rune starting with a byte
  \<open>\<ge> 0x80\<close>, and how many bytes the rune takes, depends on UTF-8 decoding and on the
  tables of \<open>strconv.IsPrint\<close>; it is the parameter \<open>nonASCII\<close>.
\<close>

definition lowerhex :: "nat \<Rightarrow> char" where
  "lowerhex n = ''0123456789abcdef'' ! (n mod 16)"

definition appendEscapedRune :: "char \<Rightarrow> string" where
  "appendEscapedRune r =
     (let n = (of_char r :: nat) in
      if r = CHR 0x22 \<or> r = CHR 0x5C then [CHR 0x5C, r]
      else if 32 \<le> n \<and> n \<le> 126 then [r]
      else if n = 7 then [CHR 0x5C, CHR ''a'']
      else if n = 8 then [CHR 0x5C, CHR ''b'']
      else if n = 12 then [CHR 0x5C, CHR ''f'']
      else if n = 10 then [CHR 0x5C, CHR ''n'']
      else if n = 13 then [CHR 0x5C, CHR ''r'']
      else if n = 9 then [CHR 0x5C, CHR ''t'']
      else if n = 11 then [CHR 0x5C, CHR ''v'']
      else [CHR 0x5C, CHR ''x'', lowerhex (n div 16), lowerhex (n mod 16)])"

function quoteLoop :: "(string \<Rightarrow> string \<times> nat) \<Rightarrow> string \<Rightarrow> string" where
  "quoteLoop nonASCII [] = []"
| "quoteLoop nonASCII (c # s) =
     (if (of_char c :: nat) < 128 then appendEscapedRune c @ quoteLoop nonASCII s
      else (case nonASCII (c # s) of (out, width) \<Rightarrow> out @ quoteLoop nonASCII (drop (width - 1) s)))"
  by pat_completeness auto
termination
  by (relation "measure (\<lambda>(u, s). length s)") auto

definition Quote :: "(string \<Rightarrow> string \<times> nat) \<Rightarrow> string \<Rightarrow> string" where
  "Quote nonASCII s = [CHR 0x22] @ quoteLoop nonASCII s @ [CHR 0x22]"

subsection \<open>Helpers of flags.go\<close>

definition formatValuesForUsageDocs :: "string list \<Rightarrow> string" where
  "formatValuesForUsageDocs values = ''{'' @ Join values ''|'' @ ''}''"

fun isIncluded :: "(string \<Rightarrow> string \<Rightarrow> bool) \<Rightarrow> string \<Rightarrow> string list \<Rightarrow> bool" where
  "isIncluded hasUnicode v [] = False"
| "isIncluded hasUnicode v (opt # opts) =
     (if EqualFold hasUnicode opt v then True else isIncluded hasUnicode v opts)"

subsection \<open>The five adapters\<close>

text \<open>Nilable string: \<open>None\<close> is the nil \<open>*string\<close> of a flag that was not passed.\<close>

record stringValue =
  sv_string :: "string option"

definition stringValue_Set :: "string \<Rightarrow> stringValue \<Rightarrow> error option \<times> stringValue" where
  "stringValue_Set v s = (None, s\<lparr>sv_string := Some v\<rparr>)"

definition stringValue_String :: "stringValue \<Rightarrow> string" where
  "stringValue_String s = (case sv_string s of None \<Rightarrow> [] | Some v \<Rightarrow> v)"

text \<open>Nilable bool. \<open>Set\<close> stores the parsed value before it looks at the error.\<close>

record boolValue =
  bv_bool :: "bool option"

definition boolValue_Set :: "string \<Rightarrow> boolValue \<Rightarrow> error option \<times> boolValue" where
  "boolValue_Set v b = (case ParseBool v of (x, err) \<Rightarrow> (err, b\<lparr>bv_bool := Some x\<rparr>))"

definition boolValue_String :: "boolValue \<Rightarrow> string" where
  "boolValue_String b =
     (case bv_bool b of None \<Rightarrow> ''false'' | Some x \<Rightarrow> if x then ''true'' else ''false'')"

text \<open>
  Regexp string. The compiled pattern is its matching function \<open>re.MatchString\<close>.
\<close>

record regexpValue =
  rv_value :: string
  rv_re :: "string \<Rightarrow> bool"

definition regexpValue_Set ::
  "(string \<Rightarrow> string \<times> nat) \<Rightarrow> string \<Rightarrow> regexpValue \<Rightarrow> error option \<times> regexpValue" where
  "regexpValue_Set nonASCII v r =
     (if \<not> rv_re r v
      then (Some (PatternMismatch (Quote nonASCII v @ '' does not match regexp format'')), r)
      else (None, r\<lparr>rv_value := v\<rparr>))"

definition regexpValue_String :: "regexpValue \<Rightarrow> string" where
  "regexpValue_String r = rv_value r"

text \<open>Enum string.\<close>

record enumValue =
  ev_string :: string
  ev_options :: "string list"

definition enumValue_Set ::
  "(string \<Rightarrow> string \<Rightarrow> bool) \<Rightarrow> string \<Rightarrow> enumValue \<Rightarrow> error option \<times> enumValue" where
  "enumValue_Set hasUnicode v e =
     (if \<not> isIncluded hasUnicode v (ev_options e)
      then (Some (InvalidEnumValue
              (''valid values are '' @ formatValuesForUsageDocs (ev_options e))), e)
      else (None, e\<lparr>ev_string := v\<rparr>))"

definition enumValue_String :: "enumValue \<Rightarrow> string" where
  "enumValue_String e = ev_string e"

text \<open>
  Enum string slice. The loop over the items returns at the first item that is not
  included; \<open>allIncluded\<close> is that loop.
\<close>

record enumMultiValue =
  emv_value :: "string list"
  emv_options :: "string list"

fun allIncluded :: "(string \<Rightarrow> string \<Rightarrow> bool) \<Rightarrow> string list \<Rightarrow> string list \<Rightarrow> bool" where
  "allIncluded hasUnicode [] opts = True"
| "allIncluded hasUnicode (item # items) opts =
     (if \<not> isIncluded hasUnicode item opts then False else allIncluded hasUnicode items opts)"

definition enumMultiValue_Set ::
  "(string \<Rightarrow> string \<Rightarrow> bool) \<Rightarrow> string \<Rightarrow> enumMultiValue \<Rightarrow> error option \<times> enumMultiValue" where
  "enumMultiValue_Set hasUnicode v e =
     (let items = Split v CHR '','' in
      if \<not> allIncluded hasUnicode items (emv_options e)
      then (Some (InvalidEnumValue
              (''valid values are '' @ formatValuesForUsageDocs (emv_options e))), e)
      else (None, e\<lparr>emv_value := items\<rparr>))"

definition enumMultiValue_String :: "enumMultiValue \<Rightarrow> string" where
  "enumMultiValue_String e = ''{'' @ Join (emv_value e) '', '' @ ''}''"

subsection \<open>Constructors\<close>

text \<open>
  Each constructor writes the default into the caller's variable, builds the adapter
  around it and registers it with the command; the registration belongs to the flag
  library and is not modelled. \<open>p0\<close> is what the variable held before.
\<close>

definition newStringValue :: "string option \<Rightarrow> stringValue" where
  "newStringValue p0 = \<lparr>sv_string = p0\<rparr>"

definition newBoolValue :: "bool option \<Rightarrow> boolValue" where
  "newBoolValue p0 = \<lparr>bv_bool = p0\<rparr>"

definition StringEnumFlag :: "string \<Rightarrow> string \<Rightarrow> string list \<Rightarrow> enumValue" where
  "StringEnumFlag p0 defaultValue options = \<lparr>ev_string = defaultValue, ev_options = options\<rparr>"

definition StringSliceEnumFlag :: "string list \<Rightarrow> string list \<Rightarrow> string list \<Rightarrow> enumMultiValue" where
  "StringSliceEnumFlag p0 defaultValues options =
     \<lparr>emv_value = defaultValues, emv_options = options\<rparr>"

definition StringRegexpFlag :: "string \<Rightarrow> string \<Rightarrow> (string \<Rightarrow> bool) \<Rightarrow> regexpValue" where
  "StringRegexpFlag p0 defaultValue re = \<lparr>rv_value = defaultValue, rv_re = re\<rparr>"

subsection \<open>Notions the properties are stated with\<close>

text \<open>
  The elements of a sequence joined with a separator, as the specification words it:
  the separator stands between each element and the next.
\<close>

fun joined :: "string \<Rightarrow> string list \<Rightarrow> string" where
  "joined sep [] = []"
| "joined sep [x] = x"
| "joined sep (x # y # ys) = x @ sep @ joined sep (y # ys)"

text \<open>ASCII bytes, and the lower-case form of an ASCII letter.\<close>

definition isASCII :: "char \<Rightarrow> bool" where
  "isASCII c = ((of_char c :: nat) < 128)"

definition toLower :: "char \<Rightarrow> char" where
  "toLower c =
     (if (65::nat) \<le> of_char c \<and> (of_char c :: nat) \<le> 90
      then char_of (of_char c + (32::nat)) else c)"

text \<open>A printable ASCII byte other than the double quote and the backslash.\<close>

definition plainASCII :: "char \<Rightarrow> bool" where
  "plainASCII c =
     ((32::nat) \<le> of_char c \<and> (of_char c :: nat) \<le> 126 \<and> c \<noteq> CHR 0x22 \<and> c \<noteq> CHR 0x5C)"

text \<open>
  The pattern \<open>^\d+$\<close> of the specification's example, as its matching function: one
  or more decimal digits and nothing else.
\<close>

definition matchDigits :: "string \<Rightarrow> bool" where
  "matchDigits s = (s \<noteq> [] \<and> list_all (\<lambda>c. c \<in> set ''0123456789'') s)"

section \<open>Properties\<close>

subsection \<open>Library functions\<close>

lemma ParseBool_error:
  "snd (ParseBool v) =
     (if v \<in> set [''1'', ''t'', ''T'', ''TRUE'', ''true'', ''True'',
                   ''0'', ''f'', ''F'', ''FALSE'', ''false'', ''False'']
      then None else Some (ParseError v))"
  by (simp add: ParseBool_def)

lemma EqualFold_empty: "EqualFold u opt [] = (opt = [])"
  by (cases opt) auto

lemma of_char_toLower:
  "(of_char (toLower c) :: nat) =
     (if (65::nat) \<le> of_char c \<and> (of_char c :: nat) \<le> 90 then of_char c + 32 else of_char c)"
  by (simp add: toLower_def)

lemma toLower_eq_iff:
  "(toLower a = toLower b) = ((of_char (toLower a) :: nat) = of_char (toLower b))"
  by simp

lemma EqualFold_step:
  assumes "(of_char sr :: nat) < 128" "(of_char tr :: nat) < 128"
  shows "EqualFold u (sr # s) (tr # t) = (toLower sr = toLower tr \<and> EqualFold u s t)"
proof -
  define a where "a = (of_char sr :: nat)"
  define b where "b = (of_char tr :: nat)"
  have ab: "a < 128" "b < 128"
    using assms by (simp_all add: a_def b_def)
  have eq: "(tr = sr) = (b = a)"
    by (simp add: a_def b_def)
  have low: "(toLower sr = toLower tr) =
      ((if 65 \<le> a \<and> a \<le> 90 then a + 32 else a) = (if 65 \<le> b \<and> b \<le> 90 then b + 32 else b))"
    unfolding toLower_eq_iff of_char_toLower a_def b_def ..
  have step: "EqualFold u (sr # s) (tr # t) =
      (if b = a then EqualFold u s t
       else if b < a then (if 65 \<le> b \<and> b \<le> 90 \<and> a = b + 32 then EqualFold u s t else False)
       else (if 65 \<le> a \<and> a \<le> 90 \<and> b = a + 32 then EqualFold u s t else False))"
    using ab unfolding EqualFold.simps eq Let_def
    by (simp add: a_def b_def)
  show ?thesis
    unfolding step low using ab by auto
qed

text \<open>
  On ASCII strings \<open>EqualFold\<close> is equality up to the case of the letters, whatever the
  Unicode part does.
\<close>

lemma EqualFold_ASCII:
  "list_all isASCII s \<Longrightarrow> list_all isASCII t \<Longrightarrow>
   EqualFold u s t = (map toLower s = map toLower t)"
proof (induction s arbitrary: t)
  case Nil
  then show ?case by (cases t) auto
next
  case (Cons sr s)
  show ?case
  proof (cases t)
    case Nil
    then show ?thesis by simp
  next
    case (Cons tr t')
    with Cons.prems have "(of_char sr :: nat) < 128" "(of_char tr :: nat) < 128"
      "list_all isASCII s" "list_all isASCII t'"
      by (simp_all add: isASCII_def list_all_iff)
    then show ?thesis
      using Cons.IH [of t'] Cons by (simp add: EqualFold_step del: EqualFold.simps)
  qed
qed

lemma IndexByte_None: "IndexByte s c = None \<Longrightarrow> c \<notin> set s"
  by (induction s) (auto split: if_splits option.splits)

lemma IndexByte_Some:
  "IndexByte s c = Some m \<Longrightarrow> take m s @ c # drop (Suc m) s = s \<and> c \<notin> set (take m s)"
  by (induction s arbitrary: m) (auto split: if_splits option.splits)

lemma Split_empty: "Split [] c = [[]]"
  by (simp add: Split.simps)

lemma Split_not_Nil: "Split s c \<noteq> []"
  by (subst Split.simps) (simp split: option.splits)

lemma Join_Cons:
  assumes "xs \<noteq> []"
  shows "Join (x # xs) sep = x @ sep @ Join xs sep"
proof (cases xs)
  case Nil
  then show ?thesis using assms by simp
next
  case (Cons y ys)
  then show ?thesis by (cases ys) auto
qed

lemma Join_joined: "Join xs sep = joined sep xs"
proof (induction sep xs rule: joined.induct)
  case (3 sep x y ys)
  have "Join (x # y # ys) sep = x @ sep @ Join (y # ys) sep"
    by (rule Join_Cons) simp
  with 3 show ?case by (simp del: Join.simps)
qed simp_all

text \<open>Splitting loses nothing: the items joined with the separator are the input.\<close>

lemma Join_Split: "Join (Split s c) [c] = s"
proof (induction s c rule: Split.induct)
  case (1 s sep)
  show ?case
  proof (cases "IndexByte s sep")
    case None
    then show ?thesis by (subst Split.simps) simp
  next
    case (Some m)
    have "Join (Split s sep) [sep] = Join (take m s # Split (drop (m + 1) s) sep) [sep]"
      using Some by (subst Split.simps) simp
    also have "\<dots> = take m s @ [sep] @ Join (Split (drop (m + 1) s) sep) [sep]"
      by (rule Join_Cons) (rule Split_not_Nil)
    also have "\<dots> = take m s @ [sep] @ drop (m + 1) s"
      using "1.IH" [OF Some] by simp
    also have "\<dots> = s"
      using IndexByte_Some [OF Some] by simp
    finally show ?thesis .
  qed
qed

lemma Split_items_no_sep: "item \<in> set (Split s c) \<Longrightarrow> c \<notin> set item"
proof (induction s c arbitrary: item rule: Split.induct)
  case (1 s sep)
  show ?case
  proof (cases "IndexByte s sep")
    case None
    with "1.prems" have "item = s" by (subst (asm) Split.simps) simp
    with None show ?thesis by (simp add: IndexByte_None)
  next
    case (Some m)
    with "1.prems" have "item = take m s \<or> item \<in> set (Split (drop (m + 1) s) sep)"
      by (subst (asm) Split.simps) simp
    then show ?thesis
      using IndexByte_Some [OF Some] "1.IH" [OF Some] by auto
  qed
qed

lemma Split_items_subset: "item \<in> set (Split s c) \<Longrightarrow> set item \<subseteq> set s"
proof (induction s c arbitrary: item rule: Split.induct)
  case (1 s sep)
  show ?case
  proof (cases "IndexByte s sep")
    case None
    with "1.prems" show ?thesis by (subst (asm) Split.simps) simp
  next
    case (Some m)
    with "1.prems" have "item = take m s \<or> item \<in> set (Split (drop (m + 1) s) sep)"
      by (subst (asm) Split.simps) simp
    then show ?thesis
    proof
      assume "item = take m s"
      then show ?thesis by (simp add: set_take_subset)
    next
      assume "item \<in> set (Split (drop (m + 1) s) sep)"
      then have "set item \<subseteq> set (drop (m + 1) s)" by (rule "1.IH" [OF Some])
      also have "\<dots> \<subseteq> set s" by (rule set_drop_subset)
      finally show ?thesis .
    qed
  qed
qed

lemma quoteLoop_plain: "list_all plainASCII v \<Longrightarrow> quoteLoop q v = v"
  by (induction v) (auto simp: plainASCII_def appendEscapedRune_def Let_def)

subsection \<open>Helpers of flags.go\<close>

lemma isIncluded_iff:
  "isIncluded u v opts = (\<exists>opt\<in>set opts. EqualFold u opt v)"
  by (induction opts) auto

lemma allIncluded_iff:
  "allIncluded u items opts = (\<forall>item\<in>set items. isIncluded u item opts)"
  by (induction items) auto

text \<open>
  On ASCII input and options, being included is having the same lower-case form as some
  option.
\<close>

lemma isIncluded_ASCII:
  assumes "list_all isASCII v" and "\<forall>opt\<in>set opts. list_all isASCII opt"
  shows "isIncluded u v opts = (\<exists>opt\<in>set opts. map toLower opt = map toLower v)"
  using assms by (simp add: isIncluded_iff EqualFold_ASCII)

lemma allIncluded_ASCII:
  assumes "list_all isASCII v" and "\<forall>opt\<in>set opts. list_all isASCII opt"
  shows "allIncluded u (Split v c) opts
    = (\<forall>item\<in>set (Split v c). \<exists>opt\<in>set opts. map toLower opt = map toLower item)"
proof -
  have "list_all isASCII item" if "item \<in> set (Split v c)" for item
    using Split_items_subset [OF that] assms(1) by (auto simp: list_all_iff)
  then show ?thesis
    using assms(2) by (simp add: allIncluded_iff isIncluded_ASCII)
qed

lemma boolValue_Set_unfold:
  "boolValue_Set v b = (snd (ParseBool v), b\<lparr>bv_bool := Some (fst (ParseBool v))\<rparr>)"
  by (simp add: boolValue_Set_def case_prod_beta)

text \<open>
  The adapters that check their input before they write leave the variable as it was
  when they return an error.
\<close>

lemma checked_Set_error_keeps_target:
  "fst (stringValue_Set v s) \<noteq> None \<Longrightarrow> snd (stringValue_Set v s) = s"
  "fst (regexpValue_Set q v r) \<noteq> None \<Longrightarrow> snd (regexpValue_Set q v r) = r"
  "fst (enumValue_Set u v e) \<noteq> None \<Longrightarrow> snd (enumValue_Set u v e) = e"
  "fst (enumMultiValue_Set u v m) \<noteq> None \<Longrightarrow> snd (enumMultiValue_Set u v m) = m"
  by (auto simp: stringValue_Set_def regexpValue_Set_def enumValue_Set_def
      enumMultiValue_Set_def Let_def split: if_splits)

section \<open>The claims\<close>

subsection \<open>C1: an error leaves the storage location unchanged\<close>

text \<open>
  Claim C1: for every adapter and every input, if \<open>set\<close> returns an error then the bound
  storage location holds afterwards what it held before. The adapters that check their
  input first do so (\<open>checked_Set_error_keeps_target\<close>); \<open>boolValue.Set\<close> does not: it
  stores the result of \<open>strconv.ParseBool\<close> before it returns the error. On the input
  \<open>yes\<close>, with a variable that is nil (flag not passed), it returns the parse error and
  the variable now points to \<open>false\<close>.
\<close>

theorem boolValue_Set_error_overwrites:
  "boolValue_Set ''yes'' \<lparr>bv_bool = None\<rparr>
     = (Some (ParseError ''yes''), \<lparr>bv_bool = Some False\<rparr>)"
  by (simp add: boolValue_Set_def ParseBool_def)

subsection \<open>C2: the inputs the nilable bool adapter accepts\<close>

text \<open>
  Claim C2, as the code has it: \<open>boolValue.Set v\<close> succeeds exactly when \<open>v\<close> is one of
  the twelve literals \<open>1 t T TRUE true True 0 f F FALSE false False\<close>, and returns the
  parse error (carrying \<open>v\<close>) for every other string, such as \<open>yes\<close> and \<open>2\<close>.
\<close>

theorem boolValue_Set_literals:
  "fst (boolValue_Set v b) =
     (if v \<in> set [''1'', ''t'', ''T'', ''TRUE'', ''true'', ''True'',
                   ''0'', ''f'', ''F'', ''FALSE'', ''false'', ''False'']
      then None else Some (ParseError v))"
  unfolding boolValue_Set_unfold fst_conv by (rule ParseBool_error)

theorem boolValue_Set_literals_witness:
  "fst (boolValue_Set ''True'' \<lparr>bv_bool = None\<rparr>) = None
   \<and> fst (boolValue_Set ''yes'' \<lparr>bv_bool = None\<rparr>) = Some (ParseError ''yes'')
   \<and> fst (boolValue_Set ''2'' \<lparr>bv_bool = None\<rparr>) = Some (ParseError ''2'')"
  using boolValue_Set_literals [of "''True''" "\<lparr>bv_bool = None\<rparr>"]
    boolValue_Set_literals [of "''yes''" "\<lparr>bv_bool = None\<rparr>"]
    boolValue_Set_literals [of "''2''" "\<lparr>bv_bool = None\<rparr>"]
  by simp

text \<open>
  The claim as it is written takes the literals case-insensitively and names \<open>tRuE\<close>
  as accepted. That casing is not among the twelve: the adapter returns the parse error.
\<close>

theorem boolValue_Set_tRuE_rejected:
  "fst (boolValue_Set ''tRuE'' \<lparr>bv_bool = None\<rparr>) = Some (ParseError ''tRuE'')"
  by (simp add: boolValue_Set_def ParseBool_def)

subsection \<open>C3: the enum string-slice adapter is all-or-nothing\<close>

text \<open>
  Claim C3: \<open>enumMultiValue.Set v\<close> splits \<open>v\<close> on the comma. It succeeds if and only if
  every item matches some option under \<open>strings.EqualFold\<close>; then the variable becomes
  the whole sequence of items, as split. Otherwise it returns the error that lists the
  valid values and the adapter, variable included, is unchanged. The items are \<open>v\<close> cut at
  its commas and nothing else: joined with a comma they give \<open>v\<close> back (so order,
  duplicates and casing are those of the input), and no item contains a comma. The match
  is case-insensitive: when the input and the options are ASCII, \<open>Set\<close> succeeds if and
  only if every item has the same lower-case form as some option.
\<close>

theorem enumMultiValue_Set_all_or_nothing:
  "enumMultiValue_Set u v e =
     (if (\<forall>item\<in>set (Split v CHR '',''). \<exists>opt\<in>set (emv_options e). EqualFold u opt item)
      then (None, e\<lparr>emv_value := Split v CHR '',''\<rparr>)
      else (Some (InvalidEnumValue
              (''valid values are '' @ formatValuesForUsageDocs (emv_options e))), e))
   \<and> Join (Split v CHR '','') '','' = v
   \<and> (\<forall>item\<in>set (Split v CHR '',''). CHR '','' \<notin> set item)
   \<and> (list_all isASCII v \<and> (\<forall>opt\<in>set (emv_options e). list_all isASCII opt) \<longrightarrow>
        (fst (enumMultiValue_Set u v e) = None)
          = (\<forall>item\<in>set (Split v CHR '','').
               \<exists>opt\<in>set (emv_options e). map toLower opt = map toLower item))"
proof (intro conjI impI)
  show "enumMultiValue_Set u v e =
     (if (\<forall>item\<in>set (Split v CHR '',''). \<exists>opt\<in>set (emv_options e). EqualFold u opt item)
      then (None, e\<lparr>emv_value := Split v CHR '',''\<rparr>)
      else (Some (InvalidEnumValue
              (''valid values are '' @ formatValuesForUsageDocs (emv_options e))), e))"
    by (simp add: enumMultiValue_Set_def Let_def allIncluded_iff isIncluded_iff)
  show "Join (Split v CHR '','') '','' = v"
    by (rule Join_Split)
  show "\<forall>item\<in>set (Split v CHR '',''). CHR '','' \<notin> set item"
    by (simp add: Split_items_no_sep)
  show "(fst (enumMultiValue_Set u v e) = None)
          = (\<forall>item\<in>set (Split v CHR '','').
               \<exists>opt\<in>set (emv_options e). map toLower opt = map toLower item)"
    if "list_all isASCII v \<and> (\<forall>opt\<in>set (emv_options e). list_all isASCII opt)"
    using that allIncluded_ASCII [of v "emv_options e" u "CHR '',''"]
    by (simp add: enumMultiValue_Set_def Let_def)
qed

lemma Split_examples:
  "Split ''A,b'' CHR '','' = [''A'', ''b'']"
  "Split ''a,b,bogus'' CHR '','' = [''a'', ''b'', ''bogus'']"
  "Split ''a,d'' CHR '','' = [''a'', ''d'']"
  "Split ''a,['' CHR '','' = [''a'', ''['']"
  by (simp_all add: Split.simps)

text \<open>
  The example of the claim, \<open>A,b\<close> with the options \<open>a\<close> and \<open>b\<close>, and inputs that
  are rejected as a whole: an item that is no option, an item as long as an option, and
  an item that differs from an option in the bit that tells the cases of a letter apart.
\<close>

theorem enumMultiValue_Set_all_or_nothing_witness:
  "enumMultiValue_Set (\<lambda>s t. False) ''A,b'' \<lparr>emv_value = [''x''], emv_options = [''a'', ''b'']\<rparr>
     = (None, \<lparr>emv_value = [''A'', ''b''], emv_options = [''a'', ''b'']\<rparr>)
   \<and> enumMultiValue_Set (\<lambda>s t. False) ''a,b,bogus''
        \<lparr>emv_value = [''x''], emv_options = [''a'', ''b'', ''c'']\<rparr>
     = (Some (InvalidEnumValue ''valid values are {a|b|c}''),
        \<lparr>emv_value = [''x''], emv_options = [''a'', ''b'', ''c'']\<rparr>)
   \<and> enumMultiValue_Set (\<lambda>s t. False) ''a,d'' \<lparr>emv_value = [''x''], emv_options = [''a'', ''b'']\<rparr>
     = (Some (InvalidEnumValue ''valid values are {a|b}''),
        \<lparr>emv_value = [''x''], emv_options = [''a'', ''b'']\<rparr>)
   \<and> enumMultiValue_Set (\<lambda>s t. False) ''a,['' \<lparr>emv_value = [''x''], emv_options = [''a'', ''{'']\<rparr>
     = (Some (InvalidEnumValue ''valid values are {a|{}''),
        \<lparr>emv_value = [''x''], emv_options = [''a'', ''{'']\<rparr>)"
  using enumMultiValue_Set_all_or_nothing [of "\<lambda>s t. False" "''A,b''"
      "\<lparr>emv_value = [''x''], emv_options = [''a'', ''b'']\<rparr>"]
    enumMultiValue_Set_all_or_nothing [of "\<lambda>s t. False" "''a,b,bogus''"
      "\<lparr>emv_value = [''x''], emv_options = [''a'', ''b'', ''c'']\<rparr>"]
    enumMultiValue_Set_all_or_nothing [of "\<lambda>s t. False" "''a,d''"
      "\<lparr>emv_value = [''x''], emv_options = [''a'', ''b'']\<rparr>"]
    enumMultiValue_Set_all_or_nothing [of "\<lambda>s t. False" "''a,[''"
      "\<lparr>emv_value = [''x''], emv_options = [''a'', ''{'']\<rparr>"]
  by (simp add: Split_examples formatValuesForUsageDocs_def)

subsection \<open>C4: the enum string adapter\<close>

text \<open>
  Claim C4: \<open>enumValue.Set v\<close> succeeds if and only if \<open>v\<close> matches some option under
  \<open>strings.EqualFold\<close>. On success the variable holds \<open>v\<close> as it was given, so that
  \<open>String\<close> returns \<open>v\<close>; on a mismatch the adapter is unchanged and the error message is
  \<open>valid values are\<close> followed by the options, joined with \<open>|\<close> between braces.
  The match is case-insensitive: when \<open>v\<close> and the options are ASCII, \<open>Set\<close> succeeds
  if and only if \<open>v\<close> has the same lower-case form as some option.
\<close>

theorem enumValue_Set_case_insensitive:
  "enumValue_Set u v e =
     (if (\<exists>opt\<in>set (ev_options e). EqualFold u opt v)
      then (None, e\<lparr>ev_string := v\<rparr>)
      else (Some (InvalidEnumValue
              (''valid values are '' @ ''{'' @ joined ''|'' (ev_options e) @ ''}'')), e))
   \<and> ((\<exists>opt\<in>set (ev_options e). EqualFold u opt v) \<longrightarrow>
        enumValue_String (snd (enumValue_Set u v e)) = v)
   \<and> (list_all isASCII v \<and> (\<forall>opt\<in>set (ev_options e). list_all isASCII opt) \<longrightarrow>
        (fst (enumValue_Set u v e) = None)
          = (\<exists>opt\<in>set (ev_options e). map toLower opt = map toLower v))"
proof (intro conjI impI)
  show "enumValue_Set u v e =
     (if (\<exists>opt\<in>set (ev_options e). EqualFold u opt v)
      then (None, e\<lparr>ev_string := v\<rparr>)
      else (Some (InvalidEnumValue
              (''valid values are '' @ ''{'' @ joined ''|'' (ev_options e) @ ''}'')), e))"
    by (simp add: enumValue_Set_def isIncluded_iff formatValuesForUsageDocs_def Join_joined)
  show "enumValue_String (snd (enumValue_Set u v e)) = v"
    if "\<exists>opt\<in>set (ev_options e). EqualFold u opt v"
    using that by (simp add: enumValue_Set_def isIncluded_iff enumValue_String_def)
  show "(fst (enumValue_Set u v e) = None)
          = (\<exists>opt\<in>set (ev_options e). map toLower opt = map toLower v)"
    if "list_all isASCII v \<and> (\<forall>opt\<in>set (ev_options e). list_all isASCII opt)"
    using that isIncluded_ASCII [of v "ev_options e" u] by (simp add: enumValue_Set_def)
qed

lemma toLower_JSON: "map toLower ''JSON'' = ''json''" "map toLower ''json'' = ''json''"
  by code_simp+

theorem enumValue_Set_case_insensitive_witness:
  "enumValue_Set (\<lambda>s t. False) ''JSON'' \<lparr>ev_string = ''table'', ev_options = [''table'', ''json'']\<rparr>
     = (None, \<lparr>ev_string = ''JSON'', ev_options = [''table'', ''json'']\<rparr>)
   \<and> enumValue_String (snd (enumValue_Set (\<lambda>s t. False) ''JSON''
        \<lparr>ev_string = ''table'', ev_options = [''table'', ''json'']\<rparr>)) = ''JSON''
   \<and> map toLower ''json'' = map toLower ''JSON''
   \<and> enumValue_Set (\<lambda>s t. False) ''xml'' \<lparr>ev_string = ''table'', ev_options = [''table'', ''json'']\<rparr>
     = (Some (InvalidEnumValue ''valid values are {table|json}''),
        \<lparr>ev_string = ''table'', ev_options = [''table'', ''json'']\<rparr>)
   \<and> enumValue_Set (\<lambda>s t. False) ''yaml'' \<lparr>ev_string = ''table'', ev_options = [''table'', ''json'']\<rparr>
     = (Some (InvalidEnumValue ''valid values are {table|json}''),
        \<lparr>ev_string = ''table'', ev_options = [''table'', ''json'']\<rparr>)
   \<and> enumValue_Set (\<lambda>s t. False) ''['' \<lparr>ev_string = ''table'', ev_options = [''{'']\<rparr>
     = (Some (InvalidEnumValue ''valid values are {{}''),
        \<lparr>ev_string = ''table'', ev_options = [''{'']\<rparr>)"
  using enumValue_Set_case_insensitive [of "\<lambda>s t. False" "''JSON''"
      "\<lparr>ev_string = ''table'', ev_options = [''table'', ''json'']\<rparr>"]
    enumValue_Set_case_insensitive [of "\<lambda>s t. False" "''xml''"
      "\<lparr>ev_string = ''table'', ev_options = [''table'', ''json'']\<rparr>"]
    enumValue_Set_case_insensitive [of "\<lambda>s t. False" "''yaml''"
      "\<lparr>ev_string = ''table'', ev_options = [''table'', ''json'']\<rparr>"]
    enumValue_Set_case_insensitive [of "\<lambda>s t. False" "''[''"
      "\<lparr>ev_string = ''table'', ev_options = [''{'']\<rparr>"]
  by (simp add: enumValue_String_def toLower_JSON del: list.map)

subsection \<open>C5: the nilable string adapter\<close>

text \<open>
  Claim C5: for every string \<open>v\<close>, the empty one included, \<open>stringValue.Set v\<close> returns
  no error, and afterwards the variable is present and holds \<open>v\<close>.
\<close>

theorem stringValue_Set_stores:
  "fst (stringValue_Set v s) = None \<and> sv_string (snd (stringValue_Set v s)) = Some v"
  by (simp add: stringValue_Set_def)

theorem stringValue_Set_stores_witness:
  "fst (stringValue_Set [] \<lparr>sv_string = None\<rparr>) = None
   \<and> sv_string (snd (stringValue_Set [] \<lparr>sv_string = None\<rparr>)) = Some []"
  using stringValue_Set_stores [of "[]" "\<lparr>sv_string = None\<rparr>"] by simp

subsection \<open>C6: the regexp string adapter\<close>

text \<open>
  Claim C6, as the code has it: \<open>regexpValue.Set v\<close> succeeds and stores \<open>v\<close> (which
  \<open>String\<close> then returns) if and only if \<open>v\<close> matches the pattern. When \<open>v\<close> does not
  match, the adapter is unchanged and the error message is \<open>v\<close> in the quoted form of
  the verb \<open>%q\<close>, followed by \<open>does not match regexp format\<close>. The quoted form is \<open>v\<close>
  itself between double quotes when \<open>v\<close> is made of printable ASCII bytes other than the
  double quote and the backslash.
\<close>

theorem regexpValue_Set_match:
  "regexpValue_Set q v r =
     (if rv_re r v
      then (None, r\<lparr>rv_value := v\<rparr>)
      else (Some (PatternMismatch (Quote q v @ '' does not match regexp format'')), r))
   \<and> (rv_re r v \<longrightarrow> regexpValue_String (snd (regexpValue_Set q v r)) = v)
   \<and> (list_all plainASCII v \<longrightarrow>
        Quote q v = [CHR 0x22] @ v @ [CHR 0x22]
        \<and> sublist v (Quote q v @ '' does not match regexp format''))"
proof -
  have "sublist v (([CHR 0x22] @ v @ [CHR 0x22]) @ '' does not match regexp format'')"
    unfolding sublist_def by (intro exI [of _ "[CHR 0x22]"] exI) simp
  then show ?thesis
    by (simp add: regexpValue_Set_def regexpValue_String_def Quote_def quoteLoop_plain)
qed

theorem regexpValue_Set_match_witness:
  "regexpValue_Set (\<lambda>s. ([], 1)) ''123'' \<lparr>rv_value = ''7'', rv_re = matchDigits\<rparr>
     = (None, \<lparr>rv_value = ''123'', rv_re = matchDigits\<rparr>)
   \<and> regexpValue_String (snd (regexpValue_Set (\<lambda>s. ([], 1)) ''123''
        \<lparr>rv_value = ''7'', rv_re = matchDigits\<rparr>)) = ''123''
   \<and> regexpValue_Set (\<lambda>s. ([], 1)) ''12a'' \<lparr>rv_value = ''7'', rv_re = matchDigits\<rparr>
     = (Some (PatternMismatch ([CHR 0x22] @ ''12a'' @ [CHR 0x22] @ '' does not match regexp format'')),
        \<lparr>rv_value = ''7'', rv_re = matchDigits\<rparr>)"
  using regexpValue_Set_match [of "\<lambda>s. ([], 1)" "''123''" "\<lparr>rv_value = ''7'', rv_re = matchDigits\<rparr>"]
    regexpValue_Set_match [of "\<lambda>s. ([], 1)" "''12a''" "\<lparr>rv_value = ''7'', rv_re = matchDigits\<rparr>"]
  by (simp add: matchDigits_def plainASCII_def regexpValue_String_def)

text \<open>
  The claim as it is written has the message include the rejected value itself. A value
  with a double quote inside is printed with that quote backslashed, and the message no
  longer contains the value. The input below is \<open>a\<close>, a double quote, \<open>b\<close>; the
  message has a backslash between the \<open>a\<close> and the double quote.
\<close>

theorem regexpValue_Set_message_escapes:
  "fst (regexpValue_Set (\<lambda>s. ([], 1)) [CHR ''a'', CHR 0x22, CHR ''b'']
          \<lparr>rv_value = ''7'', rv_re = matchDigits\<rparr>)
     = Some (PatternMismatch
         ([CHR 0x22, CHR ''a'', CHR 0x5C, CHR 0x22, CHR ''b'', CHR 0x22]
            @ '' does not match regexp format''))
   \<and> \<not> sublist [CHR ''a'', CHR 0x22, CHR ''b'']
         ([CHR 0x22, CHR ''a'', CHR 0x5C, CHR 0x22, CHR ''b'', CHR 0x22]
            @ '' does not match regexp format'')"
  by (simp add: regexpValue_Set_def matchDigits_def Quote_def appendEscapedRune_def
      sublist_Cons_right prefix_Cons)

subsection \<open>C7: the constructors do not validate the default\<close>

text \<open>
  Claim C7: the constructors of the enum string, enum string-slice and regexp string
  adapters have no error to return, and the adapter they build holds the default, whatever
  the default is and whatever the variable held before: also a default that no option
  matches (\<open>z\<close> for the options \<open>a\<close> and \<open>b\<close>) or one that the pattern rejects.
\<close>

theorem constructors_store_default:
  "StringEnumFlag p0 d opts = \<lparr>ev_string = d, ev_options = opts\<rparr>
   \<and> StringSliceEnumFlag ps0 ds opts = \<lparr>emv_value = ds, emv_options = opts\<rparr>
   \<and> StringRegexpFlag p0 d re = \<lparr>rv_value = d, rv_re = re\<rparr>
   \<and> \<not> isIncluded u ''z'' [''a'', ''b'']
   \<and> ev_string (StringEnumFlag p0 ''z'' [''a'', ''b'']) = ''z''
   \<and> \<not> allIncluded u [''z''] [''a'', ''b'']
   \<and> emv_value (StringSliceEnumFlag ps0 [''z''] [''a'', ''b'']) = [''z'']
   \<and> \<not> matchDigits ''z''
   \<and> rv_value (StringRegexpFlag p0 ''z'' matchDigits) = ''z''"
  by (simp add: StringEnumFlag_def StringSliceEnumFlag_def StringRegexpFlag_def matchDigits_def)

theorem constructors_store_default_witness:
  "StringEnumFlag ''old'' ''z'' [''a'', ''b''] = \<lparr>ev_string = ''z'', ev_options = [''a'', ''b'']\<rparr>
   \<and> \<not> isIncluded (\<lambda>s t. False) ''z'' [''a'', ''b'']
   \<and> StringSliceEnumFlag [''old''] [''z''] [''a'', ''b'']
       = \<lparr>emv_value = [''z''], emv_options = [''a'', ''b'']\<rparr>
   \<and> StringRegexpFlag ''old'' ''z'' matchDigits = \<lparr>rv_value = ''z'', rv_re = matchDigits\<rparr>"
  using constructors_store_default [of "''old''" "''z''" "[''a'', ''b'']" "[''old'']" "[''z'']"
      matchDigits "\<lambda>s t. False"]
  by simp

subsection \<open>C8: what the enum string-slice adapter prints\<close>

text \<open>
  Claim C8: for every current value of the variable, \<open>enumMultiValue.String\<close> returns
  its elements joined with a comma and a space, between braces; \<open>a\<close> and \<open>b\<close> print as
  \<open>{a, b}\<close>.
\<close>

theorem enumMultiValue_String_joined:
  "enumMultiValue_String e = ''{'' @ joined '', '' (emv_value e) @ ''}''"
  by (simp add: enumMultiValue_String_def Join_joined)

theorem enumMultiValue_String_joined_witness:
  "enumMultiValue_String \<lparr>emv_value = [''a'', ''b''], emv_options = [''a'', ''b'', ''c'']\<rparr> = ''{a, b}''"
  using enumMultiValue_String_joined [of "\<lparr>emv_value = [''a'', ''b''], emv_options = [''a'', ''b'', ''c'']\<rparr>"]
  by simp

subsection \<open>C9: the last write wins\<close>

text \<open>
  Claim C9: for every adapter and all inputs \<open>v1\<close> and \<open>v2\<close> on which \<open>Set\<close> succeeds,
  \<open>Set v1\<close> followed by \<open>Set v2\<close> returns what \<open>Set v2\<close> alone returns: no error, and
  the same adapter with the same content of the variable.
\<close>

theorem Set_last_write_wins:
  "(fst (stringValue_Set v1 s) = None \<and> fst (stringValue_Set v2 s) = None \<longrightarrow>
      stringValue_Set v2 (snd (stringValue_Set v1 s)) = stringValue_Set v2 s)
   \<and> (fst (boolValue_Set v1 b) = None \<and> fst (boolValue_Set v2 b) = None \<longrightarrow>
      boolValue_Set v2 (snd (boolValue_Set v1 b)) = boolValue_Set v2 b)
   \<and> (fst (regexpValue_Set q v1 r) = None \<and> fst (regexpValue_Set q v2 r) = None \<longrightarrow>
      regexpValue_Set q v2 (snd (regexpValue_Set q v1 r)) = regexpValue_Set q v2 r)
   \<and> (fst (enumValue_Set u v1 e) = None \<and> fst (enumValue_Set u v2 e) = None \<longrightarrow>
      enumValue_Set u v2 (snd (enumValue_Set u v1 e)) = enumValue_Set u v2 e)
   \<and> (fst (enumMultiValue_Set u v1 m) = None \<and> fst (enumMultiValue_Set u v2 m) = None \<longrightarrow>
      enumMultiValue_Set u v2 (snd (enumMultiValue_Set u v1 m)) = enumMultiValue_Set u v2 m)"
proof (intro conjI)
  show "fst (stringValue_Set v1 s) = None \<and> fst (stringValue_Set v2 s) = None \<longrightarrow>
      stringValue_Set v2 (snd (stringValue_Set v1 s)) = stringValue_Set v2 s"
    by (simp add: stringValue_Set_def)
  show "fst (boolValue_Set v1 b) = None \<and> fst (boolValue_Set v2 b) = None \<longrightarrow>
      boolValue_Set v2 (snd (boolValue_Set v1 b)) = boolValue_Set v2 b"
    by (simp add: boolValue_Set_unfold)
  show "fst (regexpValue_Set q v1 r) = None \<and> fst (regexpValue_Set q v2 r) = None \<longrightarrow>
      regexpValue_Set q v2 (snd (regexpValue_Set q v1 r)) = regexpValue_Set q v2 r"
    by (simp add: regexpValue_Set_def)
  show "fst (enumValue_Set u v1 e) = None \<and> fst (enumValue_Set u v2 e) = None \<longrightarrow>
      enumValue_Set u v2 (snd (enumValue_Set u v1 e)) = enumValue_Set u v2 e"
    by (simp add: enumValue_Set_def)
  show "fst (enumMultiValue_Set u v1 m) = None \<and> fst (enumMultiValue_Set u v2 m) = None \<longrightarrow>
      enumMultiValue_Set u v2 (snd (enumMultiValue_Set u v1 m)) = enumMultiValue_Set u v2 m"
    by (simp add: enumMultiValue_Set_def Let_def)
qed

lemma Split_a: "Split ''a'' CHR '','' = [''a'']"
  by (simp add: Split.simps)

lemma Split_b_a: "Split ''b,a'' CHR '','' = [''b'', ''a'']"
  by (simp add: Split.simps)

theorem Set_last_write_wins_witness:
  "stringValue_Set ''y'' (snd (stringValue_Set ''x'' \<lparr>sv_string = None\<rparr>))
     = (None, \<lparr>sv_string = Some ''y''\<rparr>)
   \<and> boolValue_Set ''false'' (snd (boolValue_Set ''true'' \<lparr>bv_bool = None\<rparr>))
     = (None, \<lparr>bv_bool = Some False\<rparr>)
   \<and> regexpValue_Set (\<lambda>s. ([], 1)) ''45'' (snd (regexpValue_Set (\<lambda>s. ([], 1)) ''123''
        \<lparr>rv_value = ''7'', rv_re = matchDigits\<rparr>))
     = (None, \<lparr>rv_value = ''45'', rv_re = matchDigits\<rparr>)
   \<and> enumValue_Set (\<lambda>s t. False) ''B'' (snd (enumValue_Set (\<lambda>s t. False) ''a''
        \<lparr>ev_string = ''c'', ev_options = [''a'', ''b'']\<rparr>))
     = (None, \<lparr>ev_string = ''B'', ev_options = [''a'', ''b'']\<rparr>)
   \<and> enumMultiValue_Set (\<lambda>s t. False) ''b,a'' (snd (enumMultiValue_Set (\<lambda>s t. False) ''a''
        \<lparr>emv_value = [], emv_options = [''a'', ''b'']\<rparr>))
     = (None, \<lparr>emv_value = [''b'', ''a''], emv_options = [''a'', ''b'']\<rparr>)"
  using Set_last_write_wins [where ?v1.0 = "''x''" and ?v2.0 = "''y''" and s = "\<lparr>sv_string = None\<rparr>"]
    Set_last_write_wins [where ?v1.0 = "''true''" and ?v2.0 = "''false''" and b = "\<lparr>bv_bool = None\<rparr>"]
    Set_last_write_wins [where ?v1.0 = "''123''" and ?v2.0 = "''45''" and q = "\<lambda>s. ([], 1)"
      and r = "\<lparr>rv_value = ''7'', rv_re = matchDigits\<rparr>"]
    Set_last_write_wins [where ?v1.0 = "''a''" and ?v2.0 = "''B''" and u = "\<lambda>s t. False"
      and e = "\<lparr>ev_string = ''c'', ev_options = [''a'', ''b'']\<rparr>"]
    Set_last_write_wins [where ?v1.0 = "''a''" and ?v2.0 = "''b,a''" and u = "\<lambda>s t. False"
      and m = "\<lparr>emv_value = [], emv_options = [''a'', ''b'']\<rparr>"]
  by (simp add: stringValue_Set_def boolValue_Set_unfold ParseBool_def regexpValue_Set_def
      matchDigits_def enumValue_Set_def enumMultiValue_Set_def Split_a Split_b_a)

subsection \<open>C10: the empty input of the enum string-slice adapter\<close>

text \<open>
  Claim C10: splitting the empty string gives one item, the empty string. So
  \<open>enumMultiValue.Set\<close> on the empty string succeeds, and the variable becomes the
  sequence of that one empty item, if and only if the empty string is one of the options;
  otherwise it returns the error that lists the valid values and changes nothing.
\<close>

theorem enumMultiValue_Set_empty_string:
  "Split [] CHR '','' = [[]]
   \<and> enumMultiValue_Set u [] e =
     (if [] \<in> set (emv_options e)
      then (None, e\<lparr>emv_value := [[]]\<rparr>)
      else (Some (InvalidEnumValue
              (''valid values are '' @ formatValuesForUsageDocs (emv_options e))), e))"
  by (simp add: enumMultiValue_Set_def Split_empty isIncluded_iff EqualFold_empty)

theorem enumMultiValue_Set_empty_string_witness:
  "enumMultiValue_Set (\<lambda>s t. False) [] \<lparr>emv_value = [''a''], emv_options = [''a'', []]\<rparr>
     = (None, \<lparr>emv_value = [[]], emv_options = [''a'', []]\<rparr>)
   \<and> enumMultiValue_Set (\<lambda>s t. False) [] \<lparr>emv_value = [''a''], emv_options = [''a'', ''b'']\<rparr>
     = (Some (InvalidEnumValue ''valid values are {a|b}''),
        \<lparr>emv_value = [''a''], emv_options = [''a'', ''b'']\<rparr>)"
  using enumMultiValue_Set_empty_string [of "\<lambda>s t. False" "\<lparr>emv_value = [''a''], emv_options = [''a'', []]\<rparr>"]
    enumMultiValue_Set_empty_string [of "\<lambda>s t. False" "\<lparr>emv_value = [''a''], emv_options = [''a'', ''b'']\<rparr>"]
  by (simp add: formatValuesForUsageDocs_def)

end
